theory Spec2Isabelle
  imports Complex_Main
begin

section \<open>dbquery: querying the LSST DM simulation galaxy catalog\<close>

text \<open>
  A shallow embedding of \<^verbatim>\<open>src/dbquery.py\<close>. The script has one function,
  \<^verbatim>\<open>main\<close>, which parses its arguments, opens the output file, checks the
  RA/DEC window, builds the column list and the query text, writes the header,
  runs the query and filters the rows into the file.

  Conventions of the model:
  \<^item> Python floats are real numbers; whether a square leaves the range of a float
    (\<^verbatim>\<open>x ** 2\<close> then raises OverflowError) is asked of the environment;
  \<^item> the formatting of a float (\<^verbatim>\<open>'%f' % x\<close> and \<^verbatim>\<open>str(x)\<close>), the file system and
    the database client are outside the script: they are fields of an environment
    record that every run receives;
  \<^item> what a run does to the world is the list of its events, in order.
\<close>

subsection \<open>String operations of Python used by the script\<close>

text \<open>\<^verbatim>\<open>sep.join(xs)\<close>\<close>

fun join :: "string \<Rightarrow> string list \<Rightarrow> string" where
  "join sep [] = []"
| "join sep [x] = x"
| "join sep (x # y # ys) = x @ sep @ join sep (y # ys)"

text \<open>
  \<^verbatim>\<open>p % t\<close> for a pattern \<^verbatim>\<open>p\<close> and a string \<^verbatim>\<open>t\<close>: the conversion \<^verbatim>\<open>%s\<close> is replaced
  by \<^verbatim>\<open>t\<close>. Every pattern of the script holds exactly one \<^verbatim>\<open>%s\<close> and no other
  conversion; Python raises TypeError on a pattern with none or with two, which no
  pattern of the script is.
\<close>

fun percent_s :: "string \<Rightarrow> string \<Rightarrow> string" where
  "percent_s [] t = []"
| "percent_s [c] t = [c]"
| "percent_s (c # d # cs) t =
     (if c = CHR ''%'' \<and> d = CHR ''s'' then t @ cs else c # percent_s (d # cs) t)"

text \<open>\<^verbatim>\<open>s.split(c)\<close> for a separator of one character: the empty string gives \<^verbatim>\<open>['']\<close>.\<close>

fun split :: "char \<Rightarrow> string \<Rightarrow> string list" where
  "split sep [] = [[]]"
| "split sep (c # cs) =
     (if c = sep then [] # split sep cs
      else (case split sep cs of
              [] \<Rightarrow> [[c]]
            | w # ws \<Rightarrow> (c # w) # ws))"

text \<open>
  \<^verbatim>\<open>s.replace(old, new)\<close>: every occurrence of \<^verbatim>\<open>old\<close>, left to right, without
  overlap. With an empty \<^verbatim>\<open>old\<close> Python puts \<^verbatim>\<open>new\<close> before every character and at the end.
\<close>

function replace :: "string \<Rightarrow> string \<Rightarrow> string \<Rightarrow> string" where
  "replace old new [] = (if old = [] then new else [])"
| "replace old new (c # cs) =
     (if old = [] then new @ c # replace old new cs
      else if take (length old) (c # cs) = old
        then new @ replace old new (drop (length old) (c # cs))
        else c # replace old new cs)"
  by pat_completeness auto
termination
  by (relation "measure (\<lambda>(old, new, s). length s)") (auto simp: neq_Nil_conv)

text \<open>\<^verbatim>\<open>str(i)\<close> for an integer: its decimal digits, after a minus sign when negative.\<close>

function str_nat :: "nat \<Rightarrow> string" where
  "str_nat n =
     (if n < 10 then [''0123456789'' ! n]
      else str_nat (n div 10) @ [''0123456789'' ! (n mod 10)])"
  by pat_completeness auto
termination
  by (relation "measure id") auto

declare str_nat.simps [simp del]

definition str_int :: "int \<Rightarrow> string" where
  "str_int i = (if i < 0 then ''-'' @ str_nat (nat (- i)) else str_nat (nat i))"

subsection \<open>The column list (lines 53 to 69, 77 and 88)\<close>

text \<open>
  \<^verbatim>\<open>addColumns(patterns, types)\<close>: for every pattern, a comma and the comma-joined
  instances of the pattern at every type. The loop over the patterns is the
  recursion of \<open>addColumns_from\<close>, whose first argument is the text so far.
\<close>

fun addColumns_from :: "string \<Rightarrow> string list \<Rightarrow> string list \<Rightarrow> string" where
  "addColumns_from text [] types = text"
| "addColumns_from text (p # ps) types =
     addColumns_from (text @ '','' @ join '','' (map (\<lambda>t. percent_s p t) types)) ps types"

definition addColumns :: "string list \<Rightarrow> string list \<Rightarrow> string" where
  "addColumns patterns types = addColumns_from [] patterns types"

text \<open>Iterating over the string \<^verbatim>\<open>"ugrizy"\<close> gives its characters as strings.\<close>

definition chars_of :: "string \<Rightarrow> string list" where
  "chars_of s = map (\<lambda>c. [c]) s"

definition columns :: string where
  "columns =
     ''galtileid,ra,dec,redshift''
     @ addColumns [''fluxnorm_%s''] [''bulge'', ''disk'', ''agn'']
     @ addColumns [''a_%s'', ''b_%s''] [''b'', ''d'']
     @ addColumns [''pa_%s''] [''bulge'', ''disk'']
     @ addColumns [''%s_ab''] (chars_of ''ugrizy'')"

definition column_names :: string where
  "column_names = replace ''galtileid,'' [] columns"

definition clist :: "string list" where
  "clist = split CHR '','' columns"

definition header :: string where
  "header = join '' '' clist"

subsection \<open>Arguments, rows, exceptions and events\<close>

text \<open>A Python number: an \<^verbatim>\<open>int\<close> or a \<^verbatim>\<open>float\<close>; \<open>num\<close> is its value in a comparison.\<close>

datatype pynum = PyInt int | PyFloat real

fun num :: "pynum \<Rightarrow> real" where
  "num (PyInt i) = real_of_int i"
| "num (PyFloat x) = x"

text \<open>
  The namespace that \<^verbatim>\<open>parser.parse_args()\<close> returns (lines 21 to 36); \<open>outfile\<close> is
  \<^verbatim>\<open>args.output\<close>. The bounds of the window are floats. \<open>null_sub\<close> is the float given
  on the command line or, by default, the integer -1.
\<close>

record args =
  verbose :: bool
  outfile :: string
  dec_min :: real
  dec_max :: real
  ra_min :: real
  ra_max :: real
  null_sub :: pynum

text \<open>
  A row of the result set maps a column name to its value: \<open>None\<close> when the row has
  no such column (subscripting raises), \<open>Some None\<close> for an SQL NULL (Python's
  \<^verbatim>\<open>None\<close>), \<open>Some (Some v)\<close> for a number.
\<close>

type_synonym row = "string \<rightharpoonup> pynum option"

datatype exn =
  KeyError string
| TypeError string
| UnboundLocalError string
| OverflowError
| LibraryError string

text \<open>What the script prints on standard output, by its format and arguments.\<close>

datatype message =
  CannotOpenOutput string
| ErrorText string
| InvalidWindow real real real real
| UsingQuery string
| Dumped nat string
| ReplacedNulls pynum
| NullCount nat string
| ClippedRows nat

datatype event =
  OpenOutput string
| Stdout message
| FileWrite string
| CreateEngine
| CreateSession
| CreateMetaData
| Execute string
| SessionClose
| EngineDispose
| FileClose

text \<open>
  The world of a run. \<open>fmt_f\<close> is \<^verbatim>\<open>'%f' % x\<close> and \<open>str_float\<close> is \<^verbatim>\<open>str(x)\<close> for a
  float; \<open>pow_overflows x\<close> tells whether \<^verbatim>\<open>x ** 2\<close> raises OverflowError, the square
  being out of the range of a float. \<open>open_error\<close> is the text of the IOError that
  opening the file for writing raises, if it does; \<open>url_error\<close>,
  \<open>create_engine_error\<close>, \<open>scoped_session_error\<close> and \<open>metadata_error\<close> are what the
  calls of lines 98 to 103 raise, if they do; \<open>execute\<close> is the outcome of
  \<^verbatim>\<open>session.execute(query).fetchall()\<close>.
\<close>

record env =
  fmt_f :: "real \<Rightarrow> string"
  str_float :: "real \<Rightarrow> string"
  pow_overflows :: "real \<Rightarrow> bool"
  open_error :: "string \<Rightarrow> string option"
  url_error :: "exn option"
  create_engine_error :: "exn option"
  scoped_session_error :: "exn option"
  metadata_error :: "exn option"
  execute :: "string \<Rightarrow> exn + row list"

text \<open>How \<^verbatim>\<open>main\<close> ends: it returns a value (\<open>None\<close> is Python's None) or raises.\<close>

datatype outcome = Returned "int option" | Raised exn

subsection \<open>Window, radius and query (lines 48 to 51, 72 and 81 to 83)\<close>

definition invalid_window :: "args \<Rightarrow> bool" where
  "invalid_window a \<longleftrightarrow> ra_min a \<ge> ra_max a \<or> dec_min a \<ge> dec_max a"

text \<open>
  Line 72 raises OverflowError when one of its two squares overflows, the square
  of the RA span being taken first.
\<close>

definition radius_overflows :: "env \<Rightarrow> args \<Rightarrow> bool" where
  "radius_overflows e a \<longleftrightarrow>
     pow_overflows e (ra_max a - ra_min a) \<or> pow_overflows e (dec_max a - dec_min a)"

text \<open>The value of line 72 when it returns.\<close>

definition radius :: "args \<Rightarrow> real" where
  "radius a = 60 * 0.5 * sqrt ((ra_max a - ra_min a)\<^sup>2 + (dec_max a - dec_min a)\<^sup>2)"

definition query :: "env \<Rightarrow> args \<Rightarrow> string" where
  "query e a =
     ''GalaxySearchSpecColsConstraint2013 @RaSearch = '' @ fmt_f e (0.5 * (ra_min a + ra_max a))
     @ '', @DecSearch = '' @ fmt_f e (0.5 * (dec_min a + dec_max a))
     @ '', @apertureRadius = '' @ fmt_f e (radius a)
     @ '', @ColumnNames = '' @ [CHR 0x27] @ column_names @ [CHR 0x27]
     @ '', @WhereClause = '' @ [CHR 0x27, CHR 0x27]"

subsection \<open>The loop over the rows (lines 108 to 126)\<close>

text \<open>
  \<open>nulls\<close> is a Python dict from column names to counts: an association list in
  insertion order, every key once.
\<close>

type_synonym nulls = "(string \<times> nat) list"

definition nulls_init :: "string \<Rightarrow> nulls \<Rightarrow> nulls" where
  "nulls_init col ns = (if col \<in> set (map fst ns) then ns else ns @ [(col, 0)])"

definition nulls_incr :: "string \<Rightarrow> nulls \<Rightarrow> nulls" where
  "nulls_incr col ns = map (\<lambda>(k, n). if k = col then (k, n + 1) else (k, n)) ns"

text \<open>
  Line 115, \<^verbatim>\<open>row[col] = args.null_sub\<close>. The rows that
  \<^verbatim>\<open>session.execute(query).fetchall()\<close> returns are SQLAlchemy's row objects, which
  do not support item assignment: the statement raises TypeError and the row stays
  as it is.
\<close>

definition setitem :: "row \<Rightarrow> string \<Rightarrow> pynum \<Rightarrow> exn + row" where
  "setitem r col v = Inl (TypeError ''item assignment'')"

text \<open>
  Lines 110 to 115: the loop over the columns, on one row. The result is the
  exception that ends it, if any, the row and the counters; the counter of a NULL
  column is bumped (lines 112 to 114) before the assignment of line 115 is tried.
\<close>

fun sanitize :: "pynum \<Rightarrow> string list \<Rightarrow> row \<Rightarrow> nulls \<Rightarrow> exn option \<times> row \<times> nulls" where
  "sanitize sub [] r ns = (None, r, ns)"
| "sanitize sub (col # cols) r ns =
     (case r col of
        None \<Rightarrow> (Some (KeyError col), r, ns)
      | Some None \<Rightarrow>
          (let ns' = nulls_incr col (nulls_init col ns) in
           case setitem r col sub of
             Inl x \<Rightarrow> (Some x, r, ns')
           | Inr r' \<Rightarrow> sanitize sub cols r' ns')
      | Some (Some v) \<Rightarrow> sanitize sub cols r ns)"

text \<open>Lines 118 and 119.\<close>

definition recenter :: "real \<Rightarrow> real" where
  "recenter ra = (if ra > 180 then ra - 360 else ra)"

text \<open>\<^verbatim>\<open>str(v)\<close> for a number: an integer prints its digits, a float as the environment says.\<close>

definition str_num :: "env \<Rightarrow> pynum \<Rightarrow> string" where
  "str_num e v = (case v of PyInt i \<Rightarrow> str_int i | PyFloat x \<Rightarrow> str_float e x)"

text \<open>The list comprehension of line 125; \<^verbatim>\<open>str(None)\<close> is \<^verbatim>\<open>'None'\<close>.\<close>

fun str_cells :: "env \<Rightarrow> row \<Rightarrow> string list \<Rightarrow> exn + string list" where
  "str_cells e r [] = Inr []"
| "str_cells e r (col # cols) =
     (case r col of
        None \<Rightarrow> Inl (KeyError col)
      | Some v \<Rightarrow>
          (case str_cells e r cols of
             Inl x \<Rightarrow> Inl x
           | Inr ws \<Rightarrow> Inr ((case v of None \<Rightarrow> ''None'' | Some x \<Rightarrow> str_num e x) # ws)))"

text \<open>The state of the loop: the events so far and the three counters.\<close>

record st =
  trace :: "event list"
  nulls :: nulls
  clipCount :: nat
  nrows :: nat

text \<open>
  One turn of the loop. The result is the exception that ends the run there, if
  any, and the state. Comparing None with a float raises TypeError (Python 3);
  \<open>or\<close> evaluates its operands from the left and stops at the first true one.
\<close>

definition row_step :: "env \<Rightarrow> args \<Rightarrow> string list \<Rightarrow> row \<Rightarrow> st \<Rightarrow> exn option \<times> st" where
  "row_step e a cols r s =
     (case sanitize (null_sub a) cols r (nulls s) of
        (Some x, r', ns) \<Rightarrow> (Some x, s\<lparr>nulls := ns\<rparr>)
      | (None, r', ns) \<Rightarrow>
          (let s1 = s\<lparr>nulls := ns\<rparr> in
           case r' ''ra'' of
             None \<Rightarrow> (Some (KeyError ''ra''), s1)
           | Some None \<Rightarrow> (Some (TypeError ''>''), s1)
           | Some (Some ra0) \<Rightarrow>
               (let ra = recenter (num ra0) in
                case r' ''dec'' of
                  None \<Rightarrow> (Some (KeyError ''dec''), s1)
                | Some d \<Rightarrow>
                    if ra < ra_min a \<or> ra > ra_max a
                    then (None, s1\<lparr>clipCount := clipCount s1 + 1\<rparr>)
                    else
                      (case d of
                         None \<Rightarrow> (Some (TypeError ''<''), s1)
                       | Some dec \<Rightarrow>
                           if num dec < dec_min a \<or> num dec > dec_max a
                           then (None, s1\<lparr>clipCount := clipCount s1 + 1\<rparr>)
                           else
                             (case str_cells e r' cols of
                                Inl x \<Rightarrow> (Some x, s1)
                              | Inr ws \<Rightarrow>
                                  (None, s1\<lparr>trace := trace s1 @ [FileWrite (join '' '' ws)],
                                            nrows := nrows s1 + 1\<rparr>))))))"

fun process_rows :: "env \<Rightarrow> args \<Rightarrow> string list \<Rightarrow> row list \<Rightarrow> st \<Rightarrow> exn option \<times> st" where
  "process_rows e a cols [] s = (None, s)"
| "process_rows e a cols (r # rs) s =
     (case row_step e a cols r s of
        (Some x, s') \<Rightarrow> (Some x, s')
      | (None, s') \<Rightarrow> process_rows e a cols rs s')"

subsection \<open>The guarded block (lines 93 to 137) and \<^verbatim>\<open>main\<close>\<close>

text \<open>Lines 127 to 133: the summary of a verbose run.\<close>

definition summary :: "args \<Rightarrow> st \<Rightarrow> event list" where
  "summary a s =
     (if verbose a
      then [Stdout (Dumped (nrows s) (outfile a))]
           @ (if nulls s \<noteq> []
              then Stdout (ReplacedNulls (null_sub a)) # map (\<lambda>(col, n). Stdout (NullCount n col)) (nulls s)
              else [])
           @ [Stdout (ClippedRows (clipCount s))]
      else [])"

text \<open>
  Lines 95 to 103. The result tells which of the local variables \<^verbatim>\<open>engine\<close> and
  \<^verbatim>\<open>session\<close> have been assigned when the block is left.
\<close>

record conn =
  raised :: "exn option"
  engine_bound :: bool
  session_bound :: bool
  events :: "event list"

definition connect :: "env \<Rightarrow> conn" where
  "connect e =
     (case url_error e of
        Some x \<Rightarrow> \<lparr>raised = Some x, engine_bound = False, session_bound = False, events = []\<rparr>
      | None \<Rightarrow>
     (case create_engine_error e of
        Some x \<Rightarrow> \<lparr>raised = Some x, engine_bound = False, session_bound = False, events = []\<rparr>
      | None \<Rightarrow>
     (case scoped_session_error e of
        Some x \<Rightarrow> \<lparr>raised = Some x, engine_bound = True, session_bound = False,
                    events = [CreateEngine]\<rparr>
      | None \<Rightarrow>
     (case metadata_error e of
        Some x \<Rightarrow> \<lparr>raised = Some x, engine_bound = True, session_bound = True,
                    events = [CreateEngine, CreateSession]\<rparr>
      | None \<Rightarrow> \<lparr>raised = None, engine_bound = True, session_bound = True,
                   events = [CreateEngine, CreateSession, CreateMetaData]\<rparr>))))"

text \<open>The body of the \<^verbatim>\<open>try\<close>, from the state in which the header has been written.\<close>

definition try_body :: "env \<Rightarrow> args \<Rightarrow> st \<Rightarrow> conn \<times> st" where
  "try_body e a s =
     (let c = connect e; s1 = s\<lparr>trace := trace s @ events c\<rparr> in
      case raised c of
        Some x \<Rightarrow> (c, s1)
      | None \<Rightarrow>
          (let s2 = s1\<lparr>trace := trace s1 @ [Execute (query e a)]\<rparr> in
           case execute e (query e a) of
             Inl x \<Rightarrow> (c\<lparr>raised := Some x\<rparr>, s2)
           | Inr results \<Rightarrow>
               (case process_rows e a clist results s2 of
                  (Some x, s3) \<Rightarrow> (c\<lparr>raised := Some x\<rparr>, s3)
                | (None, s3) \<Rightarrow> (c, s3\<lparr>trace := trace s3 @ summary a s3\<rparr>))))"

text \<open>
  The \<^verbatim>\<open>finally\<close> block: reading a local variable that was never assigned raises
  UnboundLocalError, which replaces the exception under way; otherwise that
  exception goes on once both calls are done.
\<close>

definition finally_block :: "conn \<Rightarrow> event list \<Rightarrow> exn option \<times> event list" where
  "finally_block c tr =
     (if \<not> session_bound c then (Some (UnboundLocalError ''session''), tr)
      else if \<not> engine_bound c then (Some (UnboundLocalError ''engine''), tr @ [SessionClose])
      else (raised c, tr @ [SessionClose, EngineDispose]))"

text \<open>
  The state in which the guarded block is entered: the file is open, the query
  has been printed by a verbose run, the header is written (line 89).
\<close>

definition start_st :: "env \<Rightarrow> args \<Rightarrow> st" where
  "start_st e a =
     \<lparr>trace = [OpenOutput (outfile a)]
        @ (if verbose a then [Stdout (UsingQuery (query e a))] else [])
        @ [FileWrite header],
      nulls = [], clipCount = 0, nrows = 0\<rparr>"

text \<open>
  \<^verbatim>\<open>main\<close>: the file is opened (line 41), the window checked (line 49), the radius
  computed (line 72), the query built and the header written (line 89) before
  the guarded block; an exception of line 72 leaves \<^verbatim>\<open>main\<close> there.
\<close>

definition main :: "env \<Rightarrow> args \<Rightarrow> outcome \<times> event list" where
  "main e a =
     (case open_error e (outfile a) of
        Some msg \<Rightarrow>
          (Returned (Some (- 2)), [Stdout (CannotOpenOutput (outfile a)), Stdout (ErrorText msg)])
      | None \<Rightarrow>
          if ra_min a \<ge> ra_max a \<or> dec_min a \<ge> dec_max a
          then (Returned (Some (- 2)),
                [OpenOutput (outfile a),
                 Stdout (InvalidWindow (ra_min a) (ra_max a) (dec_min a) (dec_max a))])
          else if radius_overflows e a
          then (Raised OverflowError, [OpenOutput (outfile a)])
          else
            (let (c, s) = try_body e a (start_st e a);
                 (x, tr) = finally_block c (trace s)
             in case x of
                  Some err \<Rightarrow> (Raised err, tr)
                | None \<Rightarrow> (Returned None, tr @ [FileClose])))"

text \<open>
  Lines 142 and 143 call \<^verbatim>\<open>main()\<close> and drop what it returns: the interpreter
  exits with status 0 when \<^verbatim>\<open>main\<close> returns and with status 1 when an exception
  leaves it.
\<close>

definition exit_status :: "env \<Rightarrow> args \<Rightarrow> int" where
  "exit_status e a = (case fst (main e a) of Returned v \<Rightarrow> 0 | Raised x \<Rightarrow> 1)"

subsection \<open>Notions used to state the properties\<close>

text \<open>The row has every column of the list (no subscript raises KeyError).\<close>

definition has_columns :: "string list \<Rightarrow> row \<Rightarrow> bool" where
  "has_columns cols r = list_all (\<lambda>c. r c \<noteq> None) cols"

text \<open>The row has a number, not NULL, in every column of the list.\<close>

definition full_row :: "string list \<Rightarrow> row \<Rightarrow> bool" where
  "full_row cols r = list_all (\<lambda>c. case r c of Some (Some v) \<Rightarrow> True | _ \<Rightarrow> False) cols"

text \<open>\<^verbatim>\<open>str(row[col])\<close> and the value of \<^verbatim>\<open>row[col]\<close> in a comparison, for a cell that is there.\<close>

definition str_cell :: "env \<Rightarrow> row \<Rightarrow> string \<Rightarrow> string" where
  "str_cell e r col = (case r col of Some (Some v) \<Rightarrow> str_num e v | _ \<Rightarrow> ''None'')"

definition num_at :: "row \<Rightarrow> string \<Rightarrow> real" where
  "num_at r col = (case r col of Some (Some v) \<Rightarrow> num v | _ \<Rightarrow> 0)"

text \<open>The test of line 121 and the line of line 125, for a row without NULL.\<close>

definition outside_window :: "args \<Rightarrow> row \<Rightarrow> bool" where
  "outside_window a r \<longleftrightarrow>
     recenter (num_at r ''ra'') < ra_min a
     \<or> recenter (num_at r ''ra'') > ra_max a
     \<or> num_at r ''dec'' < dec_min a
     \<or> num_at r ''dec'' > dec_max a"

definition row_line :: "env \<Rightarrow> row \<Rightarrow> string" where
  "row_line e r = join '' '' (map (str_cell e r) clist)"

text \<open>Events that write to the output file or to standard output.\<close>

fun is_output :: "event \<Rightarrow> bool" where
  "is_output (FileWrite l) = True"
| "is_output (Stdout m) = True"
| "is_output ev = False"

text \<open>Events that run the query.\<close>

fun is_execute :: "event \<Rightarrow> bool" where
  "is_execute (Execute q) = True"
| "is_execute ev = False"

subsection \<open>Concrete runs\<close>

text \<open>
  An environment in which the file opens, the client connects and the query
  returns the given rows. Its two formatting functions agree with Python on the
  numbers that the examples below format, and give a fixed text elsewhere; a
  square overflows from \<open>2 ^ 1024\<close> on. The arguments ask for the window from 0 to
  3 in RA and from 0 to 4 in DEC, with \<^verbatim>\<open>--null-sub=-7\<close>.
\<close>

definition demo_fmt :: "real \<Rightarrow> string" where
  "demo_fmt x =
     (if x = 1.5 then ''1.500000'' else if x = 2 then ''2.000000''
      else if x = 150 then ''150.000000'' else ''?'')"

definition demo_str :: "real \<Rightarrow> string" where
  "demo_str x =
     (if x = 0 then ''0.0'' else if x = 1 then ''1.0'' else if x = 2 then ''2.0''
      else if x = 350 then ''350.0'' else ''?'')"

definition demo_env :: "row list \<Rightarrow> env" where
  "demo_env rs =
     \<lparr>fmt_f = demo_fmt, str_float = demo_str, pow_overflows = (\<lambda>x. x\<^sup>2 \<ge> 2 ^ 1024),
      open_error = (\<lambda>p. None),
      url_error = None, create_engine_error = None, scoped_session_error = None,
      metadata_error = None, execute = (\<lambda>q. Inr rs)\<rparr>"

definition demo_args :: args where
  "demo_args =
     \<lparr>verbose = False, outfile = ''gcat.dat'', dec_min = 0, dec_max = 4,
      ra_min = 0, ra_max = 3, null_sub = PyFloat (- 7)\<rparr>"

text \<open>
  A row with every column: the identifier is the integer 42, the other cells are
  the float 0, to be updated at the columns of interest.
\<close>

definition zero_row :: row where
  "zero_row = (\<lambda>c. Some (Some (PyFloat 0)))(''galtileid'' \<mapsto> Some (PyInt 42))"

definition init_st :: st where
  "init_st = \<lparr>trace = [], nulls = [], clipCount = 0, nrows = 0\<rparr>"

section \<open>Properties\<close>

subsection \<open>The column list, as text\<close>

lemma clist_eq: "clist = [''galtileid'', ''ra'', ''dec'', ''redshift'', ''fluxnorm_bulge'',
  ''fluxnorm_disk'', ''fluxnorm_agn'', ''a_b'', ''a_d'', ''b_b'', ''b_d'',
  ''pa_bulge'', ''pa_disk'', ''u_ab'', ''g_ab'', ''r_ab'', ''i_ab'',
  ''z_ab'', ''y_ab'']"
  by (simp add: clist_def columns_def addColumns_def chars_of_def)

lemma ra_dec_in_clist: "''ra'' \<in> set clist" "''dec'' \<in> set clist"
  by (simp_all add: clist_eq)

lemma header_eq:
  "header = ''galtileid ra dec redshift fluxnorm_bulge fluxnorm_disk fluxnorm_agn a_b a_d b_b b_d pa_bulge pa_disk u_ab g_ab r_ab i_ab z_ab y_ab''"
  by (simp add: header_def clist_eq)

lemma column_names_eq:
  "column_names = ''ra,dec,redshift,fluxnorm_bulge,fluxnorm_disk,fluxnorm_agn,a_b,a_d,b_b,b_d,pa_bulge,pa_disk,u_ab,g_ab,r_ab,i_ab,z_ab,y_ab''"
  by (simp add: column_names_def columns_def addColumns_def chars_of_def)

subsection \<open>One row\<close>

lemma cell_case:
  "(case x of Some (Some v) \<Rightarrow> True | _ \<Rightarrow> False) \<longleftrightarrow> (\<exists>v. x = Some (Some v))"
  by (simp split: option.split)

lemma full_row_Nil: "full_row [] r"
  by (simp add: full_row_def)

lemma full_row_Cons: "full_row (c # cs) r \<longleftrightarrow> (\<exists>v. r c = Some (Some v)) \<and> full_row cs r"
  by (simp add: full_row_def cell_case)

lemma full_row_iff: "full_row cols r \<longleftrightarrow> (\<forall>c\<in>set cols. \<exists>v. r c = Some (Some v))"
  by (induction cols) (simp_all add: full_row_Nil full_row_Cons)

lemma full_row_cell:
  "full_row cols r \<Longrightarrow> c \<in> set cols \<Longrightarrow> \<exists>v. r c = Some (Some v)"
  by (simp add: full_row_iff)

lemma sanitize_full: "full_row cols r \<Longrightarrow> sanitize sub cols r ns = (None, r, ns)"
  by (induction cols) (auto simp: full_row_Nil full_row_Cons)

lemma sanitize_None_full: "fst (sanitize sub cols r ns) = None \<Longrightarrow> full_row cols r"
proof (induction cols)
  case Nil
  show ?case by (rule full_row_Nil)
next
  case (Cons c cs)
  show ?case
  proof (cases "r c")
    case None
    with Cons.prems show ?thesis by simp
  next
    case (Some v)
    show ?thesis
    proof (cases v)
      case None
      with Some Cons.prems show ?thesis
        by (simp add: setitem_def Let_def)
    next
      case (Some x)
      with \<open>r c = Some v\<close> Cons.prems have "fst (sanitize sub cs r ns) = None"
        by simp
      then have "full_row cs r" by (rule Cons.IH)
      with Some \<open>r c = Some v\<close> show ?thesis
        by (simp add: full_row_Cons)
    qed
  qed
qed

lemma sanitize_row: "fst (snd (sanitize sub cols r ns)) = r"
  by (induction cols arbitrary: ns) (auto simp: setitem_def Let_def split: option.splits)

lemma sanitize_null_raises:
  "has_columns cols r \<Longrightarrow> \<not> full_row cols r \<Longrightarrow>
   fst (sanitize sub cols r ns) = Some (TypeError ''item assignment'')"
proof (induction cols)
  case Nil
  then show ?case by (simp add: full_row_Nil)
next
  case (Cons c cs)
  from Cons.prems(1) obtain v where v: "r c = Some v" and hc: "has_columns cs r"
    by (auto simp: has_columns_def)
  show ?case
  proof (cases v)
    case None
    with v show ?thesis by (simp add: setitem_def Let_def)
  next
    case (Some x)
    with v Cons.prems(2) have "\<not> full_row cs r"
      by (simp add: full_row_Cons)
    with hc have "fst (sanitize sub cs r ns) = Some (TypeError ''item assignment'')"
      by (rule Cons.IH)
    with v Some show ?thesis by simp
  qed
qed

lemma str_cells_full: "full_row cols r \<Longrightarrow> str_cells e r cols = Inr (map (str_cell e r) cols)"
  by (induction cols) (auto simp: full_row_Cons str_cell_def)

lemma row_step_full:
  assumes "full_row clist r"
  shows "row_step e a clist r s =
     (None,
      if outside_window a r
      then s\<lparr>clipCount := clipCount s + 1\<rparr>
      else s\<lparr>trace := trace s @ [FileWrite (row_line e r)], nrows := nrows s + 1\<rparr>)"
proof -
  from full_row_cell [OF assms ra_dec_in_clist(1)] obtain ra where ra: "r ''ra'' = Some (Some ra)" ..
  from full_row_cell [OF assms ra_dec_in_clist(2)] obtain dec where dec: "r ''dec'' = Some (Some dec)" ..
  have n: "num_at r ''ra'' = num ra" "num_at r ''dec'' = num dec"
    by (simp_all add: num_at_def ra dec)
  show ?thesis
    unfolding row_step_def outside_window_def row_line_def n
    by (simp add: sanitize_full [OF assms] str_cells_full [OF assms] ra dec Let_def)
qed

lemma row_step_None_full:
  assumes "fst (row_step e a cols r s) = None"
  shows "full_row cols r"
proof -
  obtain x r' ns where san: "sanitize (null_sub a) cols r (nulls s) = (x, r', ns)"
    by (cases "sanitize (null_sub a) cols r (nulls s)")
  have "x = None"
  proof (cases x)
    case None
    then show ?thesis .
  next
    case (Some err)
    with san have "fst (row_step e a cols r s) = Some err"
      by (simp add: row_step_def)
    with assms show ?thesis by simp
  qed
  with san have "fst (sanitize (null_sub a) cols r (nulls s)) = None" by simp
  then show ?thesis by (rule sanitize_None_full)
qed

lemma row_step_trace:
  "\<exists>ws. list_all is_output ws \<and> trace (snd (row_step e a cols r s)) = trace s @ ws"
proof -
  have "trace (snd (row_step e a cols r s)) = trace s
      \<or> (\<exists>l. trace (snd (row_step e a cols r s)) = trace s @ [FileWrite l])"
    unfolding row_step_def Let_def
    by (simp split: sum.split option.split prod.split)
  then show ?thesis
  proof
    assume "trace (snd (row_step e a cols r s)) = trace s"
    then have "list_all is_output [] \<and> trace (snd (row_step e a cols r s)) = trace s @ []"
      by simp
    then show ?thesis by blast
  next
    assume "\<exists>l. trace (snd (row_step e a cols r s)) = trace s @ [FileWrite l]"
    then obtain l where "trace (snd (row_step e a cols r s)) = trace s @ [FileWrite l]" ..
    then have "list_all is_output [FileWrite l] \<and> trace (snd (row_step e a cols r s)) = trace s @ [FileWrite l]"
      by simp
    then show ?thesis by blast
  qed
qed

subsection \<open>The loop\<close>

lemma process_rows_full:
  assumes "list_all (full_row clist) rs"
  shows "\<exists>s'. process_rows e a clist rs s = (None, s')
     \<and> nulls s' = nulls s
     \<and> clipCount s' = clipCount s + length (filter (outside_window a) rs)
     \<and> nrows s' = nrows s + length (filter (\<lambda>r. \<not> outside_window a r) rs)
     \<and> trace s' = trace s @ map (\<lambda>r. FileWrite (row_line e r)) (filter (\<lambda>r. \<not> outside_window a r) rs)"
  using assms
proof (induction rs arbitrary: s)
  case Nil
  then show ?case by simp
next
  case (Cons r rs)
  then have fr: "full_row clist r" and rest: "list_all (full_row clist) rs"
    by simp_all
  define s1 where "s1 = snd (row_step e a clist r s)"
  have s1: "row_step e a clist r s = (None, s1)"
    by (simp add: s1_def row_step_full [OF fr])
  have n1: "nulls s1 = nulls s"
    and c1: "clipCount s1 = clipCount s + (if outside_window a r then 1 else 0)"
    and r1: "nrows s1 = nrows s + (if outside_window a r then 0 else 1)"
    and t1: "trace s1 = trace s @ (if outside_window a r then [] else [FileWrite (row_line e r)])"
    by (simp_all add: s1_def row_step_full [OF fr])
  from Cons.IH [OF rest, of s1] obtain s' where
    p: "process_rows e a clist rs s1 = (None, s')"
    and n: "nulls s' = nulls s1"
    and c: "clipCount s' = clipCount s1 + length (filter (outside_window a) rs)"
    and w: "nrows s' = nrows s1 + length (filter (\<lambda>r. \<not> outside_window a r) rs)"
    and t: "trace s' = trace s1 @ map (\<lambda>r. FileWrite (row_line e r)) (filter (\<lambda>r. \<not> outside_window a r) rs)"
    by blast
  have "process_rows e a clist (r # rs) s = (None, s')"
    by (simp add: s1 p)
  moreover have "nulls s' = nulls s"
    by (simp add: n n1)
  moreover have "clipCount s' = clipCount s + length (filter (outside_window a) (r # rs))"
    by (simp add: c c1)
  moreover have "nrows s' = nrows s + length (filter (\<lambda>r. \<not> outside_window a r) (r # rs))"
    by (simp add: w r1)
  moreover have "trace s' = trace s @ map (\<lambda>r. FileWrite (row_line e r)) (filter (\<lambda>r. \<not> outside_window a r) (r # rs))"
    by (simp add: t t1)
  ultimately show ?case by blast
qed

lemma process_rows_trace:
  "\<exists>ws. list_all is_output ws \<and> trace (snd (process_rows e a cols rs s)) = trace s @ ws"
proof (induction rs arbitrary: s)
  case Nil
  show ?case by simp
next
  case (Cons r rs)
  obtain x s1 where step: "row_step e a cols r s = (x, s1)"
    by (cases "row_step e a cols r s")
  from row_step_trace [of e a cols r s] step obtain ws where
    ws: "list_all is_output ws" "trace s1 = trace s @ ws" by auto
  show ?case
  proof (cases x)
    case (Some err)
    with step ws show ?thesis by auto
  next
    case None
    from Cons.IH [of s1] obtain vs where
      "list_all is_output vs" "trace (snd (process_rows e a cols rs s1)) = trace s1 @ vs"
      by blast
    with None step ws have "list_all is_output (ws @ vs) \<and>
      trace (snd (process_rows e a cols (r # rs) s)) = trace s @ (ws @ vs)"
      by simp
    then show ?thesis by blast
  qed
qed


subsection \<open>The guarded block and \<^verbatim>\<open>main\<close>\<close>

lemma connect_shape:
  "url_error e = None \<Longrightarrow> create_engine_error e = None \<Longrightarrow> scoped_session_error e = None \<Longrightarrow>
   engine_bound (connect e) \<and> session_bound (connect e) \<and> raised (connect e) = metadata_error e \<and>
   events (connect e) =
     [CreateEngine, CreateSession] @ (if metadata_error e = None then [CreateMetaData] else [])"
  by (simp add: connect_def split: option.split)

lemma try_body_bound:
  "engine_bound (fst (try_body e a s)) = engine_bound (connect e)"
  "session_bound (fst (try_body e a s)) = session_bound (connect e)"
  by (simp_all add: try_body_def Let_def split: option.split sum.split prod.split)

lemma try_body_raised:
  "raised (fst (try_body e a s)) =
     (case raised (connect e) of
        Some x \<Rightarrow> Some x
      | None \<Rightarrow>
          (case execute e (query e a) of
             Inl x \<Rightarrow> Some x
           | Inr rs \<Rightarrow>
               fst (process_rows e a clist rs
                      (s\<lparr>trace := trace s @ events (connect e) @ [Execute (query e a)]\<rparr>))))"
  by (simp add: try_body_def Let_def split: option.split sum.split prod.split)

lemma summary_output: "list_all is_output (summary a s)"
  by (simp add: summary_def list_all_iff split: prod.split) auto

lemma try_body_trace:
  "\<exists>ws. list_all is_output ws \<and>
     trace (snd (try_body e a s)) =
       trace s @ events (connect e)
       @ (if raised (connect e) = None then Execute (query e a) # ws else [])"
proof (cases "raised (connect e)")
  case (Some x)
  then have "list_all is_output [] \<and>
     trace (snd (try_body e a s)) =
       trace s @ events (connect e) @ (if raised (connect e) = None then Execute (query e a) # [] else [])"
    by (simp add: try_body_def Let_def)
  then show ?thesis by blast
next
  case None
  let ?s2 = "s\<lparr>trace := trace s @ events (connect e) @ [Execute (query e a)]\<rparr>"
  show ?thesis
  proof (cases "execute e (query e a)")
    case (Inl x)
    with None have "list_all is_output [] \<and>
     trace (snd (try_body e a s)) =
       trace s @ events (connect e) @ (if raised (connect e) = None then Execute (query e a) # [] else [])"
      by (simp add: try_body_def Let_def)
    then show ?thesis by blast
  next
    case (Inr rs)
    from process_rows_trace [of e a clist rs ?s2] obtain ws where
      ws: "list_all is_output ws" "trace (snd (process_rows e a clist rs ?s2)) = trace ?s2 @ ws"
      by blast
    obtain x s3 where p: "process_rows e a clist rs ?s2 = (x, s3)"
      by (cases "process_rows e a clist rs ?s2")
    with ws have t3: "trace s3 = trace s @ events (connect e) @ Execute (query e a) # ws"
      by simp
    show ?thesis
    proof (cases x)
      case (Some err)
      with None Inr p t3 have "trace (snd (try_body e a s)) =
         trace s @ events (connect e) @ (if raised (connect e) = None then Execute (query e a) # ws else [])"
        by (simp add: try_body_def Let_def)
      with ws(1) show ?thesis by blast
    next
      case xn: None
      with None Inr p t3 have "trace (snd (try_body e a s)) =
         trace s @ events (connect e)
         @ (if raised (connect e) = None then Execute (query e a) # (ws @ summary a s3) else [])"
        by (simp add: try_body_def Let_def)
      moreover have "list_all is_output (ws @ summary a s3)"
        using ws(1) summary_output by simp
      ultimately show ?thesis by blast
    qed
  qed
qed

lemma main_valid:
  assumes "open_error e (outfile a) = None" and "\<not> invalid_window a" and "\<not> radius_overflows e a"
  shows "main e a =
     (let cs = try_body e a (start_st e a);
          xt = finally_block (fst cs) (trace (snd cs))
      in case fst xt of
           Some err \<Rightarrow> (Raised err, snd xt)
         | None \<Rightarrow> (Returned None, snd xt @ [FileClose]))"
  using assms by (simp add: main_def invalid_window_def Let_def case_prod_beta)

lemma main_overflow:
  assumes "open_error e (outfile a) = None" and "\<not> invalid_window a" and "radius_overflows e a"
  shows "main e a = (Raised OverflowError, [OpenOutput (outfile a)])"
  using assms by (simp add: main_def invalid_window_def)

subsection \<open>The concrete runs\<close>

lemma demo_radius: "radius demo_args = 150"
  by (simp add: radius_def demo_args_def)

lemma demo_no_overflow: "\<not> radius_overflows (demo_env rs) demo_args"
  by (simp add: radius_overflows_def demo_env_def demo_args_def)

lemma demo_query:
  "query (demo_env rs) demo_args =
     ''GalaxySearchSpecColsConstraint2013 @RaSearch = 1.500000, @DecSearch = 2.000000, @apertureRadius = 150.000000, @ColumnNames = ''
     @ [CHR 0x27] @ ''ra,dec,redshift,fluxnorm_bulge,fluxnorm_disk,fluxnorm_agn,a_b,a_d,b_b,b_d,pa_bulge,pa_disk,u_ab,g_ab,r_ab,i_ab,z_ab,y_ab''
     @ [CHR 0x27] @ '', @WhereClause = '' @ [CHR 0x27, CHR 0x27]"
  by (simp add: query_def demo_radius column_names_eq demo_env_def demo_fmt_def)
     (simp add: demo_args_def)

lemma demo_main_empty:
  "main (demo_env []) demo_args =
     (Returned None,
      [OpenOutput ''gcat.dat'', FileWrite header, CreateEngine, CreateSession, CreateMetaData,
       Execute (query (demo_env []) demo_args), SessionClose, EngineDispose, FileClose])"
  by (simp add: main_def radius_overflows_def start_st_def try_body_def connect_def
        finally_block_def summary_def Let_def demo_env_def demo_args_def)

section \<open>The claims\<close>

subsection \<open>Radius and query\<close>

text \<open>
  Claim C6. For every valid window (\<open>ra_min < ra_max\<close> and \<open>dec_min < dec_max\<close>) the
  search radius is \<open>30 * sqrt ((ra_max - ra_min)\<^sup>2 + (dec_max - dec_min)\<^sup>2)\<close>, and that
  number, formatted, is the \<^verbatim>\<open>@apertureRadius\<close> of the query text.
\<close>

theorem radius_formula:
  assumes "ra_min a < ra_max a" and "dec_min a < dec_max a"
  shows "radius a = 30 * sqrt ((ra_max a - ra_min a)\<^sup>2 + (dec_max a - dec_min a)\<^sup>2)
     \<and> (\<exists>pre post. query e a =
           pre @ '', @apertureRadius = ''
           @ fmt_f e (30 * sqrt ((ra_max a - ra_min a)\<^sup>2 + (dec_max a - dec_min a)\<^sup>2)) @ post)"
proof
  show r: "radius a = 30 * sqrt ((ra_max a - ra_min a)\<^sup>2 + (dec_max a - dec_min a)\<^sup>2)"
    by (simp add: radius_def)
  have "query e a =
      (''GalaxySearchSpecColsConstraint2013 @RaSearch = '' @ fmt_f e (0.5 * (ra_min a + ra_max a))
       @ '', @DecSearch = '' @ fmt_f e (0.5 * (dec_min a + dec_max a)))
      @ '', @apertureRadius = ''
      @ fmt_f e (30 * sqrt ((ra_max a - ra_min a)\<^sup>2 + (dec_max a - dec_min a)\<^sup>2))
      @ ('', @ColumnNames = '' @ [CHR 0x27] @ column_names @ [CHR 0x27]
         @ '', @WhereClause = '' @ [CHR 0x27, CHR 0x27])"
    unfolding query_def r by simp
  then show "\<exists>pre post. query e a =
           pre @ '', @apertureRadius = ''
           @ fmt_f e (30 * sqrt ((ra_max a - ra_min a)\<^sup>2 + (dec_max a - dec_min a)\<^sup>2)) @ post"
    by blast
qed

text \<open>The window from 0 to 3 and from 0 to 4 has the radius 150 arc-minutes.\<close>

theorem radius_formula_witness:
  "ra_min demo_args < ra_max demo_args \<and> dec_min demo_args < dec_max demo_args
   \<and> radius demo_args = 30 * sqrt ((3 - 0)\<^sup>2 + (4 - 0)\<^sup>2) \<and> radius demo_args = 150"
proof -
  have 1: "ra_min demo_args < ra_max demo_args" and 2: "dec_min demo_args < dec_max demo_args"
    by (simp_all add: demo_args_def)
  from radius_formula [OF 1 2, of "demo_env []"]
  have "radius demo_args = 30 * sqrt ((ra_max demo_args - ra_min demo_args)\<^sup>2
          + (dec_max demo_args - dec_min demo_args)\<^sup>2)"
    by blast
  then show ?thesis
    using 1 2 by (simp add: demo_args_def)
qed

text \<open>
  Claim C7. The query text calls \<^verbatim>\<open>GalaxySearchSpecColsConstraint2013\<close> with the
  midpoints of the window as \<^verbatim>\<open>@RaSearch\<close> and \<^verbatim>\<open>@DecSearch\<close>, the radius as
  \<^verbatim>\<open>@apertureRadius\<close>, the comma-joined column list without \<^verbatim>\<open>galtileid\<close> as
  \<^verbatim>\<open>@ColumnNames\<close> and an empty \<^verbatim>\<open>@WhereClause\<close>; a run executes no other query, and
  this one at most once.
\<close>

theorem query_text:
  "query e a =
     ''GalaxySearchSpecColsConstraint2013 @RaSearch = '' @ fmt_f e ((ra_min a + ra_max a) / 2)
     @ '', @DecSearch = '' @ fmt_f e ((dec_min a + dec_max a) / 2)
     @ '', @apertureRadius = '' @ fmt_f e (radius a)
     @ '', @ColumnNames = '' @ [CHR 0x27]
     @ join '','' (filter (\<lambda>c. c \<noteq> ''galtileid'') clist) @ [CHR 0x27]
     @ '', @WhereClause = '' @ [CHR 0x27, CHR 0x27]
   \<and> filter is_execute (snd (main e a)) \<in> {[], [Execute (query e a)]}"
proof
  have cn: "column_names = join '','' (filter (\<lambda>c. c \<noteq> ''galtileid'') clist)"
    by (simp add: column_names_eq clist_eq)
  show "query e a =
     ''GalaxySearchSpecColsConstraint2013 @RaSearch = '' @ fmt_f e ((ra_min a + ra_max a) / 2)
     @ '', @DecSearch = '' @ fmt_f e ((dec_min a + dec_max a) / 2)
     @ '', @apertureRadius = '' @ fmt_f e (radius a)
     @ '', @ColumnNames = '' @ [CHR 0x27]
     @ join '','' (filter (\<lambda>c. c \<noteq> ''galtileid'') clist) @ [CHR 0x27]
     @ '', @WhereClause = '' @ [CHR 0x27, CHR 0x27]"
    unfolding query_def cn by simp
  show "filter is_execute (snd (main e a)) \<in> {[], [Execute (query e a)]}"
  proof (cases "open_error e (outfile a) = None \<and> \<not> invalid_window a \<and> \<not> radius_overflows e a")
    case False
    then show ?thesis
      by (auto simp: main_def invalid_window_def split: option.split)
  next
    case True
    from try_body_trace [of e a "start_st e a"] obtain ws where
      ws: "list_all is_output ws"
      and tr: "trace (snd (try_body e a (start_st e a))) =
         trace (start_st e a) @ events (connect e)
         @ (if raised (connect e) = None then Execute (query e a) # ws else [])"
      by blast
    have no_ws: "filter is_execute ws = []"
      using ws by (induction ws) (auto elim: is_output.elims)
    have no_ev: "filter is_execute (events (connect e)) = []"
      by (simp add: connect_def split: option.split)
    have no_st: "filter is_execute (trace (start_st e a)) = []"
      by (simp add: start_st_def)
    have body: "filter is_execute (trace (snd (try_body e a (start_st e a))))
        \<in> {[], [Execute (query e a)]}"
      by (simp add: tr no_ws no_ev no_st)
    have fin: "filter is_execute (snd (finally_block c t)) = filter is_execute t" for c t
      by (simp add: finally_block_def)
    have "filter is_execute (snd (main e a))
        = filter is_execute (trace (snd (try_body e a (start_st e a))))"
      using True by (simp add: main_valid Let_def fin split: option.split)
    with body show ?thesis by simp
  qed
qed

text \<open>The query of the concrete run, and its single execution.\<close>

theorem query_text_witness:
  "query (demo_env []) demo_args =
     ''GalaxySearchSpecColsConstraint2013 @RaSearch = 1.500000, @DecSearch = 2.000000, @apertureRadius = 150.000000, @ColumnNames = ''
     @ [CHR 0x27] @ ''ra,dec,redshift,fluxnorm_bulge,fluxnorm_disk,fluxnorm_agn,a_b,a_d,b_b,b_d,pa_bulge,pa_disk,u_ab,g_ab,r_ab,i_ab,z_ab,y_ab''
     @ [CHR 0x27] @ '', @WhereClause = '' @ [CHR 0x27, CHR 0x27]
   \<and> filter is_execute (snd (main (demo_env []) demo_args)) = [Execute (query (demo_env []) demo_args)]"
  using query_text [of "demo_env []" demo_args]
  by (simp add: demo_query demo_main_empty)

subsection \<open>Header, window check and return value\<close>

text \<open>
  Claim C1, as the spec states it, names the axis columns \<^verbatim>\<open>a_b_b a_b_d b_b_b b_b_d\<close>
  and speaks of every run. The header of the script is another text; a run with
  an invalid window opens the file and writes no header; and so does a run with
  the valid window from 0 to \<open>10 ^ 200\<close> in RA, which line 72 ends with OverflowError.
\<close>

theorem header_counterexample:
  "header \<noteq> ''galtileid ra dec redshift fluxnorm_bulge fluxnorm_disk fluxnorm_agn a_b_b a_b_d b_b_b b_b_d pa_bulge pa_disk u_ab g_ab r_ab i_ab z_ab y_ab''
   \<and> snd (main (demo_env []) (demo_args\<lparr>ra_min := 1, ra_max := 0\<rparr>)) =
       [OpenOutput ''gcat.dat'', Stdout (InvalidWindow 1 0 0 4)]
   \<and> main (demo_env []) (demo_args\<lparr>ra_max := 10 ^ 200\<rparr>) =
       (Raised OverflowError, [OpenOutput ''gcat.dat''])"
  by (simp add: header_eq main_def radius_overflows_def demo_env_def demo_args_def)

text \<open>
  Claim C1, amended. In every run whose output file opens, whose window is valid
  and in which line 72 does not overflow, the first line written to the file is
  the header
  \<^verbatim>\<open>galtileid ra dec redshift fluxnorm_bulge fluxnorm_disk fluxnorm_agn a_b a_d b_b b_d pa_bulge pa_disk u_ab g_ab r_ab i_ab z_ab y_ab\<close>,
  and it is written before the client is set up and the query executed, whatever
  the query then returns or raises.
\<close>

theorem header_written_first:
  assumes "open_error e (outfile a) = None" and "ra_min a < ra_max a" and "dec_min a < dec_max a"
    and "\<not> pow_overflows e (ra_max a - ra_min a)" and "\<not> pow_overflows e (dec_max a - dec_min a)"
  shows "\<exists>rest. snd (main e a) =
           [OpenOutput (outfile a)]
           @ (if verbose a then [Stdout (UsingQuery (query e a))] else [])
           @ [FileWrite ''galtileid ra dec redshift fluxnorm_bulge fluxnorm_disk fluxnorm_agn a_b a_d b_b b_d pa_bulge pa_disk u_ab g_ab r_ab i_ab z_ab y_ab'']
           @ rest"
proof -
  have valid: "\<not> invalid_window a"
    using assms by (simp add: invalid_window_def)
  have fits: "\<not> radius_overflows e a"
    using assms by (simp add: radius_overflows_def)
  from try_body_trace [of e a "start_st e a"] obtain body where
    tr: "trace (snd (try_body e a (start_st e a))) = trace (start_st e a) @ body"
    by blast
  have fin: "\<exists>post. snd (finally_block c t) = t @ post" for c t
    by (simp add: finally_block_def)
  from fin [of "fst (try_body e a (start_st e a))" "trace (start_st e a) @ body"] obtain post where
    post: "snd (finally_block (fst (try_body e a (start_st e a))) (trace (start_st e a) @ body))
       = trace (start_st e a) @ body @ post"
    by auto
  have "snd (main e a) = trace (start_st e a) @ body @ post
      \<or> snd (main e a) = trace (start_st e a) @ body @ post @ [FileClose]"
    by (simp add: main_valid [OF assms(1) valid fits] Let_def tr post split: option.split)
  then have "\<exists>rest. snd (main e a) = trace (start_st e a) @ rest"
    by auto
  then show ?thesis
    by (simp add: start_st_def header_eq)
qed

text \<open>The run on an empty result set: the header is the only line of the file.\<close>

theorem header_written_first_witness:
  "open_error (demo_env []) (outfile demo_args) = None
   \<and> ra_min demo_args < ra_max demo_args \<and> dec_min demo_args < dec_max demo_args
   \<and> (\<exists>rest. snd (main (demo_env []) demo_args) =
         [OpenOutput ''gcat.dat'',
          FileWrite ''galtileid ra dec redshift fluxnorm_bulge fluxnorm_disk fluxnorm_agn a_b a_d b_b b_d pa_bulge pa_disk u_ab g_ab r_ab i_ab z_ab y_ab'']
         @ rest)
   \<and> filter (\<lambda>ev. \<exists>l. ev = FileWrite l) (snd (main (demo_env []) demo_args)) = [FileWrite header]"
proof -
  have 1: "open_error (demo_env []) (outfile demo_args) = None"
    and 2: "ra_min demo_args < ra_max demo_args" and 3: "dec_min demo_args < dec_max demo_args"
    and 4: "\<not> pow_overflows (demo_env []) (ra_max demo_args - ra_min demo_args)"
    and 5: "\<not> pow_overflows (demo_env []) (dec_max demo_args - dec_min demo_args)"
    by (simp_all add: demo_env_def demo_args_def)
  from header_written_first [OF 1 2 3 4 5]
  have "\<exists>rest. snd (main (demo_env []) demo_args) =
         [OpenOutput ''gcat.dat'',
          FileWrite ''galtileid ra dec redshift fluxnorm_bulge fluxnorm_disk fluxnorm_agn a_b a_d b_b b_d pa_bulge pa_disk u_ab g_ab r_ab i_ab z_ab y_ab'']
         @ rest"
    by (simp add: demo_args_def)
  moreover have "filter (\<lambda>ev. \<exists>l. ev = FileWrite l) (snd (main (demo_env []) demo_args)) = [FileWrite header]"
    by (simp add: demo_main_empty)
  ultimately show ?thesis using 1 2 3 by blast
qed

text \<open>
  Claim C2, as the spec states it, has the window checked before the file is
  opened. The run below has an invalid window and opens the file; when the file
  does not open, the invalid window is not reported at all.
\<close>

theorem window_check_counterexample:
  "main (demo_env []) (demo_args\<lparr>ra_min := 1, ra_max := 0\<rparr>) =
     (Returned (Some (- 2)), [OpenOutput ''gcat.dat'', Stdout (InvalidWindow 1 0 0 4)])
   \<and> main ((demo_env [])\<lparr>open_error := \<lambda>p. Some ''Permission denied''\<rparr>)
        (demo_args\<lparr>ra_min := 1, ra_max := 0\<rparr>) =
     (Returned (Some (- 2)),
      [Stdout (CannotOpenOutput ''gcat.dat''), Stdout (ErrorText ''Permission denied'')])"
  by (simp add: main_def demo_env_def demo_args_def)

text \<open>
  Claim C2, amended. The output file is opened first. For every window with
  \<open>ra_min \<ge> ra_max\<close> or \<open>dec_min \<ge> dec_max\<close>: when the file opens, the run reports
  the invalid window and ends, with no database access and nothing written to the
  file; when the file does not open, the run reports that and ends likewise.
\<close>

theorem invalid_window_aborts:
  assumes "ra_min a \<ge> ra_max a \<or> dec_min a \<ge> dec_max a"
  shows "main e a =
     (case open_error e (outfile a) of
        None \<Rightarrow>
          (Returned (Some (- 2)),
           [OpenOutput (outfile a),
            Stdout (InvalidWindow (ra_min a) (ra_max a) (dec_min a) (dec_max a))])
      | Some msg \<Rightarrow>
          (Returned (Some (- 2)),
           [Stdout (CannotOpenOutput (outfile a)), Stdout (ErrorText msg)]))"
  using assms by (simp add: main_def split: option.split)

theorem invalid_window_aborts_witness:
  "(ra_min (demo_args\<lparr>dec_min := 4\<rparr>) \<ge> ra_max (demo_args\<lparr>dec_min := 4\<rparr>)
      \<or> dec_min (demo_args\<lparr>dec_min := 4\<rparr>) \<ge> dec_max (demo_args\<lparr>dec_min := 4\<rparr>))
   \<and> main (demo_env []) (demo_args\<lparr>dec_min := 4\<rparr>) =
     (Returned (Some (- 2)), [OpenOutput ''gcat.dat'', Stdout (InvalidWindow 0 3 4 4)])"
proof -
  have 1: "ra_min (demo_args\<lparr>dec_min := 4\<rparr>) \<ge> ra_max (demo_args\<lparr>dec_min := 4\<rparr>)
      \<or> dec_min (demo_args\<lparr>dec_min := 4\<rparr>) \<ge> dec_max (demo_args\<lparr>dec_min := 4\<rparr>)"
    by (simp add: demo_args_def)
  from invalid_window_aborts [OF 1, of "demo_env []"] 1 show ?thesis
    by (simp add: demo_env_def demo_args_def)
qed

text \<open>
  Claim C3, as the spec states it, wants two different non-zero statuses. Both
  failures make \<^verbatim>\<open>main\<close> return the same value, -2, and the script exits with
  status 0 after either.
\<close>

theorem exit_status_counterexample:
  "fst (main ((demo_env [])\<lparr>open_error := \<lambda>p. Some ''Permission denied''\<rparr>) demo_args)
     = Returned (Some (- 2))
   \<and> fst (main (demo_env []) (demo_args\<lparr>ra_min := 1, ra_max := 0\<rparr>)) = Returned (Some (- 2))
   \<and> exit_status ((demo_env [])\<lparr>open_error := \<lambda>p. Some ''Permission denied''\<rparr>) demo_args = 0
   \<and> exit_status (demo_env []) (demo_args\<lparr>ra_min := 1, ra_max := 0\<rparr>) = 0"
  by (simp add: exit_status_def main_def demo_env_def demo_args_def)

text \<open>
  Claim C3, amended. \<^verbatim>\<open>main\<close> returns the non-zero value -2 when the output file
  cannot be opened, and the same value -2 when the window is invalid. In every
  other case it returns None (success) or raises; it returns None whenever
  line 72 does not overflow, the client is set up, the query returns and no row
  lacks a column or holds a NULL, also when there are no rows or when every row
  is clipped.
\<close>

theorem main_return_value:
  "(open_error e (outfile a) \<noteq> None \<or> ra_min a \<ge> ra_max a \<or> dec_min a \<ge> dec_max a
      \<longrightarrow> fst (main e a) = Returned (Some (- 2)))
   \<and> (open_error e (outfile a) = None \<and> ra_min a < ra_max a \<and> dec_min a < dec_max a
      \<longrightarrow> fst (main e a) = Returned None \<or> (\<exists>x. fst (main e a) = Raised x))
   \<and> (open_error e (outfile a) = None \<and> ra_min a < ra_max a \<and> dec_min a < dec_max a
      \<and> \<not> pow_overflows e (ra_max a - ra_min a) \<and> \<not> pow_overflows e (dec_max a - dec_min a)
      \<and> url_error e = None \<and> create_engine_error e = None
      \<and> scoped_session_error e = None \<and> metadata_error e = None
      \<and> execute e (query e a) = Inr rs \<and> list_all (full_row clist) rs
      \<longrightarrow> fst (main e a) = Returned None)"
proof (intro conjI impI)
  assume "open_error e (outfile a) \<noteq> None \<or> ra_min a \<ge> ra_max a \<or> dec_min a \<ge> dec_max a"
  then show "fst (main e a) = Returned (Some (- 2))"
    by (auto simp: main_def split: option.split)
next
  assume h: "open_error e (outfile a) = None \<and> ra_min a < ra_max a \<and> dec_min a < dec_max a"
  then have op: "open_error e (outfile a) = None" and valid: "\<not> invalid_window a"
    by (simp_all add: invalid_window_def)
  show "fst (main e a) = Returned None \<or> (\<exists>x. fst (main e a) = Raised x)"
  proof (cases "radius_overflows e a")
    case True
    then show ?thesis by (simp add: main_overflow [OF op valid])
  next
    case False
    then show ?thesis
      by (simp add: main_valid [OF op valid] Let_def split: option.split)
  qed
next
  assume h: "open_error e (outfile a) = None \<and> ra_min a < ra_max a \<and> dec_min a < dec_max a
      \<and> \<not> pow_overflows e (ra_max a - ra_min a) \<and> \<not> pow_overflows e (dec_max a - dec_min a)
      \<and> url_error e = None \<and> create_engine_error e = None
      \<and> scoped_session_error e = None \<and> metadata_error e = None
      \<and> execute e (query e a) = Inr rs \<and> list_all (full_row clist) rs"
  then have op: "open_error e (outfile a) = None" and valid: "\<not> invalid_window a"
    and fits: "\<not> radius_overflows e a"
    by (simp_all add: invalid_window_def radius_overflows_def)
  from h have c: "engine_bound (connect e)" "session_bound (connect e)" "raised (connect e) = None"
    using connect_shape [of e] by simp_all
  from h have rows: "list_all (full_row clist) rs" and ex: "execute e (query e a) = Inr rs"
    by simp_all
  from process_rows_full [OF rows, of e a
      "(start_st e a)\<lparr>trace := trace (start_st e a) @ events (connect e) @ [Execute (query e a)]\<rparr>"]
  obtain s' where "process_rows e a clist rs
           ((start_st e a)\<lparr>trace := trace (start_st e a) @ events (connect e) @ [Execute (query e a)]\<rparr>)
        = (None, s')"
    by blast
  then have "raised (fst (try_body e a (start_st e a))) = None"
    by (simp add: try_body_raised c ex)
  then have "fst (finally_block (fst (try_body e a (start_st e a))) t) = None" for t
    by (simp add: finally_block_def try_body_bound c)
  then show "fst (main e a) = Returned None"
    by (simp add: main_valid [OF op valid fits] Let_def)
qed

text \<open>
  An output that does not open, an invalid window, an empty result set and a
  result set whose only row, at RA 350, is clipped.
\<close>

theorem main_return_value_witness:
  "fst (main ((demo_env [])\<lparr>open_error := \<lambda>p. Some ''Permission denied''\<rparr>) demo_args)
     = Returned (Some (- 2))
   \<and> fst (main (demo_env []) (demo_args\<lparr>ra_min := 3\<rparr>)) = Returned (Some (- 2))
   \<and> fst (main (demo_env []) demo_args) = Returned None
   \<and> outside_window demo_args (zero_row(''ra'' \<mapsto> Some (PyFloat 350)))
   \<and> fst (main (demo_env [zero_row(''ra'' \<mapsto> Some (PyFloat 350))]) demo_args) = Returned None"
proof -
  let ?bad = "(demo_env [])\<lparr>open_error := \<lambda>p. Some ''Permission denied''\<rparr>"
  let ?r = "zero_row(''ra'' \<mapsto> Some (PyFloat 350))"
  have "fst (main ?bad demo_args) = Returned (Some (- 2))"
    using main_return_value [of ?bad demo_args "[]"] by (simp add: demo_env_def)
  moreover have "fst (main (demo_env []) (demo_args\<lparr>ra_min := 3\<rparr>)) = Returned (Some (- 2))"
    using main_return_value [of "demo_env []" "demo_args\<lparr>ra_min := 3\<rparr>" "[]"]
    by (simp add: demo_args_def)
  moreover have "fst (main (demo_env []) demo_args) = Returned None"
    using main_return_value [of "demo_env []" demo_args "[]"]
    by (simp add: demo_env_def demo_args_def)
  moreover have "outside_window demo_args ?r"
    by (simp add: outside_window_def num_at_def recenter_def demo_args_def zero_row_def)
  moreover have "full_row clist ?r"
    by (simp add: full_row_iff clist_eq zero_row_def)
  then have "fst (main (demo_env [?r]) demo_args) = Returned None"
    using main_return_value [of "demo_env [?r]" demo_args "[?r]"]
    by (simp add: demo_env_def demo_args_def)
  ultimately show ?thesis by blast
qed

subsection \<open>Release of the session and the engine\<close>

text \<open>
  Claim C8 wants the session and the engine released on every way out of the
  guarded block. The block is also left when \<^verbatim>\<open>url.URL\<close>, \<^verbatim>\<open>create_engine\<close> or
  \<^verbatim>\<open>scoped_session\<close> raises, and then \<^verbatim>\<open>session\<close> was never assigned: the \<^verbatim>\<open>finally\<close>
  block fails at \<^verbatim>\<open>session.close()\<close> with UnboundLocalError, which leaves \<^verbatim>\<open>main\<close> in
  place of the first exception. No release call is made, an engine that
  \<^verbatim>\<open>create_engine\<close> had returned before \<^verbatim>\<open>scoped_session\<close> raised is not disposed of,
  and the file is not closed.
\<close>

theorem setup_failure_masked:
  assumes "open_error e (outfile a) = None" and "ra_min a < ra_max a" and "dec_min a < dec_max a"
    and "\<not> pow_overflows e (ra_max a - ra_min a)" and "\<not> pow_overflows e (dec_max a - dec_min a)"
    and "url_error e \<noteq> None \<or> create_engine_error e \<noteq> None \<or> scoped_session_error e \<noteq> None"
  shows "main e a =
     (Raised (UnboundLocalError ''session''),
      [OpenOutput (outfile a)]
      @ (if verbose a then [Stdout (UsingQuery (query e a))] else [])
      @ [FileWrite header]
      @ (if url_error e = None \<and> create_engine_error e = None then [CreateEngine] else []))"
proof -
  have valid: "\<not> invalid_window a"
    using assms by (simp add: invalid_window_def)
  have fits: "\<not> radius_overflows e a"
    using assms by (simp add: radius_overflows_def)
  have c: "\<not> session_bound (connect e)" "raised (connect e) \<noteq> None"
    "events (connect e) =
       (if url_error e = None \<and> create_engine_error e = None then [CreateEngine] else [])"
    using assms(6) by (auto simp: connect_def split: option.split)
  have tr: "trace (snd (try_body e a (start_st e a))) = trace (start_st e a) @ events (connect e)"
    using c(2) by (auto simp: try_body_def Let_def)
  have "finally_block (fst (try_body e a (start_st e a))) t = (Some (UnboundLocalError ''session''), t)" for t
    by (simp add: finally_block_def try_body_bound c(1))
  then have "main e a =
      (Raised (UnboundLocalError ''session''), trace (start_st e a) @ events (connect e))"
    by (simp add: main_valid [OF assms(1) valid fits] Let_def tr)
  then show ?thesis
    unfolding c(3) by (simp add: start_st_def)
qed

text \<open>
  The driver of the database is not installed, \<^verbatim>\<open>create_engine\<close> raises: the run
  ends with UnboundLocalError and no call of \<^verbatim>\<open>session.close()\<close> or \<^verbatim>\<open>engine.dispose()\<close>.
\<close>

theorem setup_failure_masked_witness:
  "main ((demo_env [])\<lparr>create_engine_error := Some (LibraryError ''No module named pymssql'')\<rparr>)
     demo_args =
     (Raised (UnboundLocalError ''session''), [OpenOutput ''gcat.dat'', FileWrite header])"
proof -
  let ?e = "(demo_env [])\<lparr>create_engine_error := Some (LibraryError ''No module named pymssql'')\<rparr>"
  have h: "open_error ?e (outfile demo_args) = None" "ra_min demo_args < ra_max demo_args"
    "dec_min demo_args < dec_max demo_args"
    "\<not> pow_overflows ?e (ra_max demo_args - ra_min demo_args)"
    "\<not> pow_overflows ?e (dec_max demo_args - dec_min demo_args)"
    "url_error ?e \<noteq> None \<or> create_engine_error ?e \<noteq> None \<or> scoped_session_error ?e \<noteq> None"
    by (simp_all add: demo_env_def demo_args_def)
  from setup_failure_masked [OF h] show ?thesis
    by (simp add: demo_env_def demo_args_def)
qed

subsection \<open>Clipping\<close>




text \<open>
  Claim C9. Recentering decides the clipping only: it changes the local variable
  \<^verbatim>\<open>ra\<close> and never the row. For every retained row, that is every row whose turn of
  the loop ends with one more row written, the cell \<^verbatim>\<open>ra\<close> is a number, the row is
  the one the query returned, and the line written has one field for each column
  of the list, the second of which, at the place of \<^verbatim>\<open>ra\<close>, is the \<^verbatim>\<open>str\<close> of that cell
  as returned, not of the recentered value.
\<close>

theorem retained_row_keeps_ra:
  assumes "row_step e a clist r s = (None, s')" and "nrows s' = nrows s + 1"
  shows "\<exists>ra ws. r ''ra'' = Some (Some ra)
     \<and> fst (snd (sanitize (null_sub a) clist r (nulls s))) = r
     \<and> trace s' = trace s @ [FileWrite (join '' '' ws)]
     \<and> length ws = length clist \<and> clist ! 1 = ''ra'' \<and> ws ! 1 = str_num e ra"
proof -
  from assms(1) have "fst (row_step e a clist r s) = None" by simp
  then have full: "full_row clist r" by (rule row_step_None_full)
  from full_row_cell [OF full ra_dec_in_clist(1)] obtain ra where ra: "r ''ra'' = Some (Some ra)" ..
  note step = row_step_full [OF full, of e a s]
  have inside: "\<not> outside_window a r"
  proof
    assume "outside_window a r"
    with step assms(1) have "s' = s\<lparr>clipCount := clipCount s + 1\<rparr>" by simp
    then have "nrows s' = nrows s" by simp
    with assms(2) show False by simp
  qed
  with step assms(1) have tr: "trace s' = trace s @ [FileWrite (join '' '' (map (str_cell e r) clist))]"
    by (auto simp: row_line_def)
  have 1: "clist ! 1 = ''ra''"
    by (simp add: clist_eq)
  have 2: "map (str_cell e r) clist ! 1 = str_num e ra"
    by (simp add: clist_eq str_cell_def ra)
  have 3: "length (map (str_cell e r) clist) = length clist"
    by simp
  have 4: "fst (snd (sanitize (null_sub a) clist r (nulls s))) = r"
    by (rule sanitize_row)
  show ?thesis
    by (rule exI [of _ ra], rule exI [of _ "map (str_cell e r) clist"], intro conjI)
       (rule ra 4 tr 3 1 2)+
qed

text \<open>
  A row at RA 350 and DEC 2, with the window from -20 to 3 in RA: recentered to -10
  it is retained, and its line shows 350.
\<close>

theorem retained_row_keeps_ra_witness:
  "recenter (num (PyFloat 350)) = - 10
   \<and> row_step (demo_env []) (demo_args\<lparr>ra_min := - 20\<rparr>) clist
        (zero_row(''ra'' \<mapsto> Some (PyFloat 350), ''dec'' \<mapsto> Some (PyFloat 2))) init_st =
       (None,
        \<lparr>trace = [FileWrite ''42 350.0 2.0 0.0 0.0 0.0 0.0 0.0 0.0 0.0 0.0 0.0 0.0 0.0 0.0 0.0 0.0 0.0 0.0''],
         nulls = [], clipCount = 0, nrows = 1\<rparr>)
   \<and> (\<exists>ws. trace (snd (row_step (demo_env []) (demo_args\<lparr>ra_min := - 20\<rparr>) clist
        (zero_row(''ra'' \<mapsto> Some (PyFloat 350), ''dec'' \<mapsto> Some (PyFloat 2))) init_st)) =
         [FileWrite (join '' '' ws)] \<and> ws ! 1 = ''350.0'')"
proof -
  let ?r = "zero_row(''ra'' \<mapsto> Some (PyFloat 350), ''dec'' \<mapsto> Some (PyFloat 2))"
  let ?a = "demo_args\<lparr>ra_min := - 20\<rparr>"
  let ?s' = "\<lparr>trace = [FileWrite ''42 350.0 2.0 0.0 0.0 0.0 0.0 0.0 0.0 0.0 0.0 0.0 0.0 0.0 0.0 0.0 0.0 0.0 0.0''],
         nulls = [], clipCount = 0, nrows = 1\<rparr>"
  have rc: "recenter (num (PyFloat 350)) = - 10"
    by (simp add: recenter_def)
  have full: "full_row clist ?r"
    by (simp add: full_row_iff clist_eq zero_row_def)
  have inside: "\<not> outside_window ?a ?r"
    by (simp add: outside_window_def num_at_def recenter_def demo_args_def)
  have line: "row_line (demo_env []) ?r =
      ''42 350.0 2.0 0.0 0.0 0.0 0.0 0.0 0.0 0.0 0.0 0.0 0.0 0.0 0.0 0.0 0.0 0.0 0.0''"
    by (simp add: row_line_def clist_eq str_cell_def str_num_def str_int_def str_nat.simps
        zero_row_def demo_env_def demo_str_def)
  have step: "row_step (demo_env []) ?a clist ?r init_st = (None, ?s')"
    by (simp add: row_step_full [OF full] inside line) (simp add: init_st_def)
  have grow: "nrows ?s' = nrows init_st + 1"
    by (simp add: init_st_def)
  from retained_row_keeps_ra [OF step grow] obtain ra ws where
    ra: "?r ''ra'' = Some (Some ra)"
    and tr: "trace ?s' = trace init_st @ [FileWrite (join '' '' ws)]"
    and ws: "ws ! 1 = str_num (demo_env []) ra"
    by blast
  from ra have "ra = PyFloat 350" by simp
  with ws have ws': "ws ! 1 = ''350.0''"
    by (simp add: str_num_def demo_env_def demo_str_def)
  from tr have "trace ?s' = [FileWrite (join '' '' ws)]"
    by (simp add: init_st_def)
  then have "trace (snd (row_step (demo_env []) ?a clist ?r init_st)) = [FileWrite (join '' '' ws)]"
    unfolding step snd_conv .
  with ws' have "\<exists>ws. trace (snd (row_step (demo_env []) ?a clist ?r init_st)) =
         [FileWrite (join '' '' ws)] \<and> ws ! 1 = ''350.0''"
    by blast
  with rc step show ?thesis by blast
qed

subsection \<open>NULL substitution\<close>

text \<open>
  Claim C5 wants every NULL replaced by the value of \<^verbatim>\<open>--null-sub\<close> and counted. The
  script counts the NULL (lines 112 to 114) and then tries the assignment of
  line 115, which the rows of the client refuse: whenever a row that has every
  column holds a NULL in a listed column, the loop over the columns ends with
  TypeError and the row is as the query returned it, the NULL still in place.
\<close>

theorem null_substitution_raises:
  assumes "has_columns cols r" and "c \<in> set cols" and "r c = Some None"
  shows "\<exists>ns'. sanitize sub cols r ns = (Some (TypeError ''item assignment''), r, ns')"
proof -
  have "\<not> full_row cols r"
  proof
    assume "full_row cols r"
    from full_row_cell [OF this assms(2)] assms(3) show False by simp
  qed
  with assms(1) have x: "fst (sanitize sub cols r ns) = Some (TypeError ''item assignment'')"
    by (rule sanitize_null_raises)
  have r: "fst (snd (sanitize sub cols r ns)) = r"
    by (rule sanitize_row)
  have "sanitize sub cols r ns =
      (Some (TypeError ''item assignment''), r, snd (snd (sanitize sub cols r ns)))"
    using x r by (metis prod.collapse)
  then show ?thesis ..
qed

text \<open>
  The example of the spec, with \<^verbatim>\<open>--null-sub=-7\<close> and a row whose redshift is NULL:
  the counter of the column goes to one, the cell is not replaced, and the run
  ends with the TypeError after the session and the engine are released; no row
  is written.
\<close>

theorem null_substitution_raises_witness:
  "has_columns clist (zero_row(''redshift'' \<mapsto> None))
   \<and> sanitize (PyFloat (- 7)) clist (zero_row(''redshift'' \<mapsto> None)) [] =
       (Some (TypeError ''item assignment''), zero_row(''redshift'' \<mapsto> None), [(''redshift'', 1)])
   \<and> main (demo_env [zero_row(''redshift'' \<mapsto> None)]) demo_args =
       (Raised (TypeError ''item assignment''),
        [OpenOutput ''gcat.dat'', FileWrite header, CreateEngine, CreateSession, CreateMetaData,
         Execute (query (demo_env []) demo_args), SessionClose, EngineDispose])"
proof -
  let ?r = "zero_row(''redshift'' \<mapsto> None)"
  have hc: "has_columns clist ?r"
    by (simp add: has_columns_def clist_eq zero_row_def)
  have c: "''redshift'' \<in> set clist" and n: "?r ''redshift'' = Some None"
    by (simp_all add: clist_eq)
  from null_substitution_raises [OF hc c n, of "PyFloat (- 7)" "[]"] obtain ns' where
    san: "sanitize (PyFloat (- 7)) clist ?r [] = (Some (TypeError ''item assignment''), ?r, ns')"
    by blast
  have "snd (snd (sanitize (PyFloat (- 7)) clist ?r [])) = [(''redshift'', 1)]"
    by (simp add: clist_eq zero_row_def setitem_def nulls_init_def nulls_incr_def Let_def)
  with san have ns': "ns' = [(''redshift'', 1)]" by simp
  have m: "main (demo_env [?r]) demo_args =
       (Raised (TypeError ''item assignment''),
        [OpenOutput ''gcat.dat'', FileWrite header, CreateEngine, CreateSession, CreateMetaData,
         Execute (query (demo_env []) demo_args), SessionClose, EngineDispose])"
    by (simp add: main_def radius_overflows_def start_st_def try_body_def connect_def
        finally_block_def Let_def demo_env_def demo_args_def query_def row_step_def clist_eq
        zero_row_def setitem_def nulls_init_def nulls_incr_def)
  from hc san [unfolded ns'] m show ?thesis by blast
qed

text \<open>
  Claim C10 wants the NULLs of a row substituted before the row is tested against
  the window, so that a NULL \<^verbatim>\<open>ra\<close> counts as the value of \<^verbatim>\<open>--null-sub\<close> there. With
  \<^verbatim>\<open>--null-sub=-7\<close> and the window from 0 to 3, a row whose \<^verbatim>\<open>ra\<close> is NULL would be
  clipped, -7 being less than 0. In the script its NULL is counted and the turn
  of the loop then ends with the TypeError of line 115: the row is not clipped,
  no comparison is made, and the rows after it are not read.
\<close>

theorem null_ra_not_compared:
  "row_step (demo_env []) demo_args clist (zero_row(''ra'' \<mapsto> None)) init_st =
     (Some (TypeError ''item assignment''),
      \<lparr>trace = [], nulls = [(''ra'', 1)], clipCount = 0, nrows = 0\<rparr>)
   \<and> process_rows (demo_env []) demo_args clist
       [zero_row(''ra'' \<mapsto> None), zero_row(''ra'' \<mapsto> Some (PyFloat 350))] init_st =
     (Some (TypeError ''item assignment''),
      \<lparr>trace = [], nulls = [(''ra'', 1)], clipCount = 0, nrows = 0\<rparr>)"
proof -
  have step: "row_step (demo_env []) demo_args clist (zero_row(''ra'' \<mapsto> None)) init_st =
     (Some (TypeError ''item assignment''),
      \<lparr>trace = [], nulls = [(''ra'', 1)], clipCount = 0, nrows = 0\<rparr>)"
    by (simp add: row_step_def clist_eq setitem_def nulls_init_def nulls_incr_def Let_def
        zero_row_def init_st_def demo_args_def)
  then show ?thesis by simp
qed

subsection \<open>Further properties\<close>

text \<open>
  Once the engine and the session exist, every way out of the guarded block
  closes the session and then disposes of the engine: after a query that
  returns, after one that raises (the failure to connect, to authenticate or to
  run the SQL shows there), after a failure of a row or of the call before the
  query. Both calls come after every other event of the block and before the file
  is closed; an exception of the query leaves \<^verbatim>\<open>main\<close> after them, unchanged.
\<close>

theorem session_and_engine_released:
  assumes "open_error e (outfile a) = None" and "ra_min a < ra_max a" and "dec_min a < dec_max a"
    and "url_error e = None" and "create_engine_error e = None" and "scoped_session_error e = None"
    and "\<not> pow_overflows e (ra_max a - ra_min a)" and "\<not> pow_overflows e (dec_max a - dec_min a)"
  shows "\<exists>body.
       snd (main e a) =
         [OpenOutput (outfile a)]
         @ (if verbose a then [Stdout (UsingQuery (query e a))] else [])
         @ [FileWrite header, CreateEngine, CreateSession]
         @ body @ [SessionClose, EngineDispose]
         @ (case fst (main e a) of Returned v \<Rightarrow> [FileClose] | Raised x \<Rightarrow> [])
     \<and> list_all (\<lambda>ev. is_output ev \<or> ev = CreateMetaData \<or> ev = Execute (query e a)) body
     \<and> (metadata_error e = None \<longrightarrow> Execute (query e a) \<in> set body)
     \<and> (\<forall>x. metadata_error e = None \<and> execute e (query e a) = Inl x
            \<longrightarrow> fst (main e a) = Raised x)"
proof -
  let ?s0 = "start_st e a"
  let ?c = "fst (try_body e a ?s0)"
  have valid: "\<not> invalid_window a"
    using assms by (simp add: invalid_window_def)
  have fits: "\<not> radius_overflows e a"
    using assms by (simp add: radius_overflows_def)
  from connect_shape [OF assms(4-6)]
  have eb: "engine_bound (connect e)" and sb: "session_bound (connect e)"
    and rc: "raised (connect e) = metadata_error e"
    and ev: "events (connect e) =
       [CreateEngine, CreateSession] @ (if metadata_error e = None then [CreateMetaData] else [])"
    by simp_all
  from try_body_trace [of e a ?s0] obtain ws where
    ws: "list_all is_output ws"
    and tr: "trace (snd (try_body e a ?s0)) =
       trace ?s0 @ events (connect e)
       @ (if raised (connect e) = None then Execute (query e a) # ws else [])"
    by blast
  define body where
    "body = (if metadata_error e = None then CreateMetaData # Execute (query e a) # ws else [])"
  have tr': "trace (snd (try_body e a ?s0)) = trace ?s0 @ [CreateEngine, CreateSession] @ body"
    by (simp add: tr ev rc body_def)
  have fin: "finally_block ?c t = (raised ?c, t @ [SessionClose, EngineDispose])" for t
    by (simp add: finally_block_def try_body_bound eb sb)
  have m: "main e a =
      (case raised ?c of
         Some err \<Rightarrow> (Raised err, trace ?s0 @ [CreateEngine, CreateSession] @ body
                                    @ [SessionClose, EngineDispose])
       | None \<Rightarrow> (Returned None, trace ?s0 @ [CreateEngine, CreateSession] @ body
                                    @ [SessionClose, EngineDispose] @ [FileClose]))"
    by (simp add: main_valid [OF assms(1) valid fits] Let_def fin tr' split: option.split)
  have 1: "snd (main e a) =
         [OpenOutput (outfile a)]
         @ (if verbose a then [Stdout (UsingQuery (query e a))] else [])
         @ [FileWrite header, CreateEngine, CreateSession]
         @ body @ [SessionClose, EngineDispose]
         @ (case fst (main e a) of Returned v \<Rightarrow> [FileClose] | Raised x \<Rightarrow> [])"
    by (simp add: m start_st_def split: option.split)
  have 2: "list_all (\<lambda>ev. is_output ev \<or> ev = CreateMetaData \<or> ev = Execute (query e a)) body"
    using ws by (auto simp: body_def list_all_iff)
  have 3: "metadata_error e = None \<longrightarrow> Execute (query e a) \<in> set body"
    by (simp add: body_def)
  have 4: "\<forall>x. metadata_error e = None \<and> execute e (query e a) = Inl x
            \<longrightarrow> fst (main e a) = Raised x"
    by (simp add: m try_body_raised rc)
  show ?thesis
    by (rule exI [of _ body], intro conjI) (rule 1 2 3 4)+
qed

text \<open>A query that returns and a query that raises.\<close>

theorem session_and_engine_released_witness:
  "main (demo_env []) demo_args =
     (Returned None,
      [OpenOutput ''gcat.dat'', FileWrite header, CreateEngine, CreateSession, CreateMetaData,
       Execute (query (demo_env []) demo_args), SessionClose, EngineDispose, FileClose])
   \<and> main ((demo_env [])\<lparr>execute := \<lambda>q. Inl (LibraryError ''OperationalError'')\<rparr>) demo_args =
     (Raised (LibraryError ''OperationalError''),
      [OpenOutput ''gcat.dat'', FileWrite header, CreateEngine, CreateSession, CreateMetaData,
       Execute (query (demo_env []) demo_args), SessionClose, EngineDispose])"
proof -
  let ?e = "(demo_env [])\<lparr>execute := \<lambda>q. Inl (LibraryError ''OperationalError'')\<rparr>"
  have h: "open_error ?e (outfile demo_args) = None" "ra_min demo_args < ra_max demo_args"
    "dec_min demo_args < dec_max demo_args" "url_error ?e = None" "create_engine_error ?e = None"
    "scoped_session_error ?e = None"
    "\<not> pow_overflows ?e (ra_max demo_args - ra_min demo_args)"
    "\<not> pow_overflows ?e (dec_max demo_args - dec_min demo_args)"
    by (simp_all add: demo_env_def demo_args_def)
  have md: "metadata_error ?e = None" and ex: "execute ?e (query ?e demo_args) = Inl (LibraryError ''OperationalError'')"
    by (simp_all add: demo_env_def)
  from session_and_engine_released [OF h] obtain body where
    tr: "snd (main ?e demo_args) =
         [OpenOutput (outfile demo_args)]
         @ (if verbose demo_args then [Stdout (UsingQuery (query ?e demo_args))] else [])
         @ [FileWrite header, CreateEngine, CreateSession]
         @ body @ [SessionClose, EngineDispose]
         @ (case fst (main ?e demo_args) of Returned v \<Rightarrow> [FileClose] | Raised x \<Rightarrow> [])"
    and out: "fst (main ?e demo_args) = Raised (LibraryError ''OperationalError'')"
    using md ex by blast
  have "main ?e demo_args =
     (Raised (LibraryError ''OperationalError''),
      [OpenOutput ''gcat.dat'', FileWrite header, CreateEngine, CreateSession, CreateMetaData,
       Execute (query (demo_env []) demo_args), SessionClose, EngineDispose])"
    by (simp add: main_def radius_overflows_def start_st_def try_body_def connect_def
        finally_block_def Let_def demo_env_def demo_args_def query_def)
  with demo_main_empty out show ?thesis by simp
qed

text \<open>
  A valid window whose span is too large for line 72: the OverflowError leaves
  \<^verbatim>\<open>main\<close> when the file has been opened and nothing written; no query is built and
  the file is not closed.
\<close>

theorem overflow_leaves_main:
  assumes "open_error e (outfile a) = None" and "ra_min a < ra_max a" and "dec_min a < dec_max a"
    and "pow_overflows e (ra_max a - ra_min a) \<or> pow_overflows e (dec_max a - dec_min a)"
  shows "main e a = (Raised OverflowError, [OpenOutput (outfile a)])"
  using assms by (simp add: main_def radius_overflows_def)

theorem overflow_leaves_main_witness:
  "ra_min (demo_args\<lparr>ra_max := 10 ^ 200\<rparr>) < ra_max (demo_args\<lparr>ra_max := 10 ^ 200\<rparr>)
   \<and> main (demo_env []) (demo_args\<lparr>ra_max := 10 ^ 200\<rparr>) =
       (Raised OverflowError, [OpenOutput ''gcat.dat''])"
proof -
  let ?a = "demo_args\<lparr>ra_max := 10 ^ 200\<rparr>"
  have h: "open_error (demo_env []) (outfile ?a) = None" "ra_min ?a < ra_max ?a"
    "dec_min ?a < dec_max ?a"
    "pow_overflows (demo_env []) (ra_max ?a - ra_min ?a)
       \<or> pow_overflows (demo_env []) (dec_max ?a - dec_min ?a)"
    by (simp_all add: demo_env_def demo_args_def)
  from overflow_leaves_main [OF h] h(2) show ?thesis
    by (simp add: demo_args_def)
qed

text \<open>
  The whole loop, on a result set whose rows have a number in every column, from
  the state in which the guarded block is entered: it ends without an exception;
  the file receives the lines of the rows inside the window, in the order of the
  result set; \<open>nrows\<close> counts them and \<open>clipCount\<close> the other rows; no NULL is counted.
\<close>

theorem loop_result:
  assumes "list_all (full_row clist) rs"
    and "process_rows e a clist rs (start_st e a) = (x, s')"
  shows "x = None
     \<and> trace s' = trace (start_st e a)
         @ map (\<lambda>r. FileWrite (row_line e r)) (filter (\<lambda>r. \<not> outside_window a r) rs)
     \<and> nrows s' = length (filter (\<lambda>r. \<not> outside_window a r) rs)
     \<and> clipCount s' = length (filter (outside_window a) rs)
     \<and> nrows s' + clipCount s' = length rs
     \<and> nulls s' = []"
proof -
  from process_rows_full [OF assms(1), of e a "start_st e a"] obtain s'' where
    p: "process_rows e a clist rs (start_st e a) = (None, s'')"
    and nl: "nulls s'' = nulls (start_st e a)"
    and c: "clipCount s'' = clipCount (start_st e a) + length (filter (outside_window a) rs)"
    and n: "nrows s'' = nrows (start_st e a) + length (filter (\<lambda>r. \<not> outside_window a r) rs)"
    and t: "trace s'' = trace (start_st e a)
         @ map (\<lambda>r. FileWrite (row_line e r)) (filter (\<lambda>r. \<not> outside_window a r) rs)"
    by blast
  from p assms(2) have x: "x = None" and s: "s'' = s'"
    by simp_all
  have c': "clipCount s' = length (filter (outside_window a) rs)"
    using c by (simp add: s start_st_def)
  have n': "nrows s' = length (filter (\<lambda>r. \<not> outside_window a r) rs)"
    using n by (simp add: s start_st_def)
  have nl': "nulls s' = []"
    using nl by (simp add: s start_st_def)
  have sum: "nrows s' + clipCount s' = length rs"
    unfolding c' n' using sum_length_filter_compl [of "outside_window a" rs] by simp
  show ?thesis
    by (intro conjI) (rule x t [unfolded s] n' c' sum nl')+
qed

text \<open>Three rows: inside the window, at RA 350 (clipped) and inside again.\<close>

theorem loop_result_witness:
  "list_all (full_row clist)
     [zero_row(''ra'' \<mapsto> Some (PyFloat 1)), zero_row(''ra'' \<mapsto> Some (PyFloat 350)),
      zero_row(''ra'' \<mapsto> Some (PyFloat 2))]
   \<and> filter is_output (trace (snd (process_rows (demo_env []) demo_args clist
       [zero_row(''ra'' \<mapsto> Some (PyFloat 1)), zero_row(''ra'' \<mapsto> Some (PyFloat 350)),
        zero_row(''ra'' \<mapsto> Some (PyFloat 2))]
       (start_st (demo_env []) demo_args)))) =
     [FileWrite header,
      FileWrite ''42 1.0 0.0 0.0 0.0 0.0 0.0 0.0 0.0 0.0 0.0 0.0 0.0 0.0 0.0 0.0 0.0 0.0 0.0'',
      FileWrite ''42 2.0 0.0 0.0 0.0 0.0 0.0 0.0 0.0 0.0 0.0 0.0 0.0 0.0 0.0 0.0 0.0 0.0 0.0'']
   \<and> clipCount (snd (process_rows (demo_env []) demo_args clist
       [zero_row(''ra'' \<mapsto> Some (PyFloat 1)), zero_row(''ra'' \<mapsto> Some (PyFloat 350)),
        zero_row(''ra'' \<mapsto> Some (PyFloat 2))]
       (start_st (demo_env []) demo_args))) = 1"
proof -
  let ?r1 = "zero_row(''ra'' \<mapsto> Some (PyFloat 1))" and ?r2 = "zero_row(''ra'' \<mapsto> Some (PyFloat 350))"
    and ?r3 = "zero_row(''ra'' \<mapsto> Some (PyFloat 2))"
  have h: "list_all (full_row clist) [?r1, ?r2, ?r3]"
    by (simp add: full_row_iff clist_eq zero_row_def)
  have o: "\<not> outside_window demo_args ?r1" "outside_window demo_args ?r2"
    "\<not> outside_window demo_args ?r3"
    by (simp_all add: outside_window_def num_at_def recenter_def demo_args_def zero_row_def)
  have l: "row_line (demo_env []) ?r1 =
      ''42 1.0 0.0 0.0 0.0 0.0 0.0 0.0 0.0 0.0 0.0 0.0 0.0 0.0 0.0 0.0 0.0 0.0 0.0''"
    "row_line (demo_env []) ?r3 =
      ''42 2.0 0.0 0.0 0.0 0.0 0.0 0.0 0.0 0.0 0.0 0.0 0.0 0.0 0.0 0.0 0.0 0.0 0.0''"
    by (simp_all add: row_line_def clist_eq str_cell_def str_num_def str_int_def str_nat.simps
        zero_row_def demo_env_def demo_str_def)
  have st: "trace (start_st (demo_env []) demo_args) = [OpenOutput ''gcat.dat'', FileWrite header]"
    by (simp add: start_st_def demo_args_def)
  note inst = loop_result [OF h surjective_pairing, of "demo_env []" demo_args]
  from inst have "trace (snd (process_rows (demo_env []) demo_args clist [?r1, ?r2, ?r3]
       (start_st (demo_env []) demo_args))) =
     trace (start_st (demo_env []) demo_args)
     @ map (\<lambda>r. FileWrite (row_line (demo_env []) r))
         (filter (\<lambda>r. \<not> outside_window demo_args r) [?r1, ?r2, ?r3])"
    by (rule conjunct2 [THEN conjunct1])
  then have 1: "filter is_output (trace (snd (process_rows (demo_env []) demo_args clist [?r1, ?r2, ?r3]
       (start_st (demo_env []) demo_args)))) =
     [FileWrite header,
      FileWrite ''42 1.0 0.0 0.0 0.0 0.0 0.0 0.0 0.0 0.0 0.0 0.0 0.0 0.0 0.0 0.0 0.0 0.0 0.0'',
      FileWrite ''42 2.0 0.0 0.0 0.0 0.0 0.0 0.0 0.0 0.0 0.0 0.0 0.0 0.0 0.0 0.0 0.0 0.0 0.0'']"
    by (simp add: o l st)
  from inst have "clipCount (snd (process_rows (demo_env []) demo_args clist [?r1, ?r2, ?r3]
       (start_st (demo_env []) demo_args))) = length (filter (outside_window demo_args) [?r1, ?r2, ?r3])"
    by (rule conjunct2 [THEN conjunct2, THEN conjunct2, THEN conjunct1])
  then have 2: "clipCount (snd (process_rows (demo_env []) demo_args clist [?r1, ?r2, ?r3]
       (start_st (demo_env []) demo_args))) = 1"
    by (simp add: o)
  show ?thesis
    by (intro conjI) (rule h 1 2)+
qed

end
